theory Spec2Isabelle
  imports Complex_Main "HOL-Library.Multiset" "HOL-Library.List_Lexorder" "HOL-Library.Char_ord"
begin

section \<open>Helper functions of the background scripts (core/background/util/util.js)\<close>

subsection \<open>JavaScript numbers and the values a duration can take\<close>

text \<open>
  A JavaScript number is \<open>NaN\<close>, one of the two infinities, or a finite value. Finite
  values are taken as exact reals: the rounding of IEEE-754 doubles (and with it the
  overflow of very large products and the sign of zero) is outside this model.
  The argument of \<open>getSecondsToScrobble\<close> is a number, \<open>undefined\<close> or \<open>null\<close>.
\<close>

datatype number = NaN | NegInfinity | PosInfinity | Finite real

datatype jsvalue = Undefined | Null | Num number

text \<open>\<open>ToBoolean\<close>: \<open>undefined\<close>, \<open>null\<close>, \<open>NaN\<close> and zero are falsy.\<close>

fun ToBoolean :: "jsvalue \<Rightarrow> bool" where
  "ToBoolean Undefined = False"
| "ToBoolean Null = False"
| "ToBoolean (Num NaN) = False"
| "ToBoolean (Num (Finite x)) = (x \<noteq> 0)"
| "ToBoolean (Num NegInfinity) = True"
| "ToBoolean (Num PosInfinity) = True"

text \<open>\<open>ToNumber\<close>, applied by \<open><\<close> and \<open>*\<close> to their operands.\<close>

fun ToNumber :: "jsvalue \<Rightarrow> number" where
  "ToNumber Undefined = NaN"
| "ToNumber Null = Finite 0"
| "ToNumber (Num n) = n"

text \<open>The relational operator \<open><\<close> on numbers: false as soon as one side is \<open>NaN\<close>.\<close>

fun less_than :: "number \<Rightarrow> number \<Rightarrow> bool" where
  "less_than NaN _ = False"
| "less_than _ NaN = False"
| "less_than NegInfinity NegInfinity = False"
| "less_than NegInfinity _ = True"
| "less_than _ NegInfinity = False"
| "less_than PosInfinity _ = False"
| "less_than (Finite x) PosInfinity = True"
| "less_than (Finite x) (Finite y) = (x < y)"

text \<open>
  \<open>n * c\<close> and \<open>n / c\<close> for a positive finite constant \<open>c\<close>, the only way the source
  multiplies and divides (by \<open>SCROBBLE_PERCENTAGE\<close> and by \<open>100\<close>).
\<close>

fun times_const :: "number \<Rightarrow> real \<Rightarrow> number" where
  "times_const NaN c = NaN"
| "times_const NegInfinity c = NegInfinity"
| "times_const PosInfinity c = PosInfinity"
| "times_const (Finite x) c = Finite (x * c)"

fun divide_const :: "number \<Rightarrow> real \<Rightarrow> number" where
  "divide_const NaN c = NaN"
| "divide_const NegInfinity c = NegInfinity"
| "divide_const PosInfinity c = PosInfinity"
| "divide_const (Finite x) c = Finite (x / c)"

text \<open>\<open>Math.round\<close>: the nearest integer, a tie going towards plus infinity.\<close>

fun Math_round :: "number \<Rightarrow> number" where
  "Math_round (Finite x) = Finite (of_int \<lfloor>x + 1 / 2\<rfloor>)"
| "Math_round n = n"

text \<open>\<open>Math.min\<close> of two numbers: \<open>NaN\<close> if one of them is.\<close>

fun Math_min :: "number \<Rightarrow> number \<Rightarrow> number" where
  "Math_min NaN _ = NaN"
| "Math_min _ NaN = NaN"
| "Math_min a b = (if less_than b a then b else a)"

subsection \<open>The scrobble threshold\<close>

definition DEFAULT_SCROBBLE_TIME :: real where
  "DEFAULT_SCROBBLE_TIME = 30"

definition MIN_TRACK_DURATION :: real where
  "MIN_TRACK_DURATION = 30"

definition MAX_SCROBBLE_TIME :: real where
  "MAX_SCROBBLE_TIME = 240"

definition SCROBBLE_PERCENTAGE :: real where
  "SCROBBLE_PERCENTAGE = 50"

definition getSecondsToScrobble :: "jsvalue \<Rightarrow> number" where
  "getSecondsToScrobble duration =
     (if \<not> ToBoolean duration then Finite DEFAULT_SCROBBLE_TIME
      else if less_than (ToNumber duration) (Finite MIN_TRACK_DURATION) then Finite (- 1)
      else
        let scrobbleTime =
              Math_round (divide_const (times_const (ToNumber duration) SCROBBLE_PERCENTAGE) 100)
        in Math_min scrobbleTime (Finite MAX_SCROBBLE_TIME))"

text \<open>
  Rounding to the nearest integer with a tie going away from zero, as the specification
  words it; this definition is the specification's, not the source's.
\<close>

definition round_half_away :: "real \<Rightarrow> int" where
  "round_half_away x = (if 0 \<le> x then \<lfloor>x + 1 / 2\<rfloor> else \<lceil>x - 1 / 2\<rceil>)"

subsection \<open>Hiding a string in logged text\<close>

text \<open>
  A string is the list of its code units. An argument that may be \<open>undefined\<close> or
  \<open>null\<close> is an option, \<open>None\<close> standing for both.
\<close>

definition STR_REPLACER :: string where
  "STR_REPLACER = ''x''"

definition REPLACER_LEN :: nat where
  "REPLACER_LEN = 5"

text \<open>\<open>s.repeat(n)\<close> and \<open>s.substr(start)\<close> for a start that is not negative.\<close>

definition String_repeat :: "string \<Rightarrow> nat \<Rightarrow> string" where
  "String_repeat s n = concat (replicate n s)"

definition String_substr :: "string \<Rightarrow> nat \<Rightarrow> string" where
  "String_substr s start = drop start s"

text \<open>The position of the first occurrence of \<open>p\<close> in \<open>t\<close>, if there is one.\<close>

fun String_indexOf :: "string \<Rightarrow> string \<Rightarrow> nat option" where
  "String_indexOf [] p = (if p = [] then Some 0 else None)"
| "String_indexOf (c # cs) p =
     (if take (length p) (c # cs) = p then Some 0
      else map_option Suc (String_indexOf cs p))"

text \<open>
  \<open>GetSubstitution\<close> of the language standard for a search value that is a string,
  so that there are no captures: in the replacement text \<open>$$\<close> stands for a dollar
  sign, \<open>$&\<close> for the matched text, \<open>$`\<close> for the text before the match and
  \<open>$'\<close> for the text after it; every other character, and a dollar sign followed by
  anything else, stands for itself.
\<close>

fun GetSubstitution :: "string \<Rightarrow> string \<Rightarrow> string \<Rightarrow> string \<Rightarrow> string" where
  "GetSubstitution matched preceding following [] = []"
| "GetSubstitution matched preceding following [c] = [c]"
| "GetSubstitution matched preceding following (c # d # ds) =
     (if c = CHR ''$'' \<and> d = CHR ''$'' then CHR ''$'' # GetSubstitution matched preceding following ds
      else if c = CHR ''$'' \<and> d = CHR ''&'' then matched @ GetSubstitution matched preceding following ds
      else if c = CHR ''$'' \<and> d = CHR 0x60 then preceding @ GetSubstitution matched preceding following ds
      else if c = CHR ''$'' \<and> d = CHR 0x27 then following @ GetSubstitution matched preceding following ds
      else c # GetSubstitution matched preceding following (d # ds))"

text \<open>\<open>text.replace(pattern, replacement)\<close> with both arguments strings.\<close>

definition String_replace :: "string \<Rightarrow> string \<Rightarrow> string \<Rightarrow> string" where
  "String_replace t pattern replacement =
     (case String_indexOf t pattern of
        None \<Rightarrow> t
      | Some pos \<Rightarrow>
          let preceding = take pos t;
              following = drop (pos + length pattern) t
          in preceding @ GetSubstitution pattern preceding following replacement @ following)"

definition hideStringInText :: "string option \<Rightarrow> string option \<Rightarrow> string option" where
  "hideStringInText str text =
     (case (str, text) of
        (Some s, Some t) \<Rightarrow>
          if s \<noteq> [] \<and> t \<noteq> [] then
            let replacer = String_repeat STR_REPLACER (min REPLACER_LEN (length t))
            in Some (String_replace t s (replacer @ String_substr s (length replacer)))
          else text
      | _ \<Rightarrow> text)"

definition hideString :: "string option \<Rightarrow> string option" where
  "hideString str =
     (case str of
        Some s \<Rightarrow>
          if s \<noteq> [] then
            let replacer = String_repeat STR_REPLACER (min REPLACER_LEN (length s))
            in Some (replacer @ String_substr s (length replacer))
          else str
      | None \<Rightarrow> str)"

subsection \<open>A promise raced against a timer\<close>

text \<open>
  The promise returned by \<open>timeoutPromise\<close> is rejected either with the error object
  that the timer callback creates or with the reason of the wrapped promise.
\<close>

datatype ('v, 'e) promise_state = Pending | Fulfilled 'v | Rejected 'e

datatype 'e rejection = NewError string | Forwarded 'e

datatype timer_state = Armed | Cleared | Fired

record ('v, 'e) guard =
  timer :: timer_state
  wrapped :: "('v, 'e) promise_state"
  returned :: "('v, 'e rejection) promise_state"

text \<open>
  \<open>resolve\<close> and \<open>reject\<close> of the returned promise settle it once and are ignored
  afterwards; \<open>clearTimeout\<close> cancels a timer that has not fired.
\<close>

definition resolve :: "'v \<Rightarrow> ('v, 'e) guard \<Rightarrow> ('v, 'e) guard" where
  "resolve res g = (if returned g = Pending then g\<lparr>returned := Fulfilled res\<rparr> else g)"

definition reject :: "'e rejection \<Rightarrow> ('v, 'e) guard \<Rightarrow> ('v, 'e) guard" where
  "reject err g = (if returned g = Pending then g\<lparr>returned := Rejected err\<rparr> else g)"

definition clearTimeout :: "('v, 'e) guard \<Rightarrow> ('v, 'e) guard" where
  "clearTimeout g = (if timer g = Armed then g\<lparr>timer := Cleared\<rparr> else g)"

text \<open>The three callbacks that \<open>timeoutPromise\<close> registers.\<close>

definition on_timeout :: "('v, 'e) guard \<Rightarrow> ('v, 'e) guard" where
  "on_timeout g = reject (NewError ''promise timeout'') g"

definition on_fulfilled :: "'v \<Rightarrow> ('v, 'e) guard \<Rightarrow> ('v, 'e) guard" where
  "on_fulfilled res g = resolve res (clearTimeout g)"

definition on_rejected :: "'e \<Rightarrow> ('v, 'e) guard \<Rightarrow> ('v, 'e) guard" where
  "on_rejected err g = reject (Forwarded err) (clearTimeout g)"

text \<open>
  What the event loop can deliver: the timer elapses, or the wrapped promise is fulfilled
  or rejected. A timer runs its callback once and only while it is armed; a promise
  settles once and then runs the matching callback.
\<close>

datatype ('v, 'e) event = Deadline | Fulfils 'v | Rejects 'e

fun deliver :: "('v, 'e) guard \<Rightarrow> ('v, 'e) event \<Rightarrow> ('v, 'e) guard" where
  "deliver g Deadline =
     (if timer g = Armed then on_timeout (g\<lparr>timer := Fired\<rparr>) else g)"
| "deliver g (Fulfils res) =
     (if wrapped g = Pending then on_fulfilled res (g\<lparr>wrapped := Fulfilled res\<rparr>) else g)"
| "deliver g (Rejects err) =
     (if wrapped g = Pending then on_rejected err (g\<lparr>wrapped := Rejected err\<rparr>) else g)"

text \<open>
  \<open>timeoutPromise\<close> arms the timer and subscribes to the wrapped promise; the events
  that follow are delivered in their order.
\<close>

definition started :: "('v, 'e) guard" where
  "started = \<lparr>timer = Armed, wrapped = Pending, returned = Pending\<rparr>"

definition timeoutPromise :: "('v, 'e) event list \<Rightarrow> ('v, 'e) guard" where
  "timeoutPromise events = foldl deliver started events"

subsection \<open>The sorted list of connectors\<close>

text \<open>
  A connector has a label, next to fields that this module does not read. Arrays live in
  a store, so that a copy can be told from the array it was made of.
\<close>

record connector =
  label :: string

record 'c store =
  arrays :: "nat \<rightharpoonup> 'c list"
  fresh :: nat

text \<open>\<open>xs.slice(0)\<close>: a new array with the elements of the old one.\<close>

definition Array_slice0 :: "'c store \<Rightarrow> nat \<Rightarrow> (nat \<times> 'c store) option" where
  "Array_slice0 h a =
     (case arrays h a of
        None \<Rightarrow> None
      | Some xs \<Rightarrow>
          Some (fresh h, h\<lparr>arrays := (arrays h)(fresh h \<mapsto> xs), fresh := Suc (fresh h)\<rparr>))"

text \<open>
  \<open>xs.sort(compare)\<close> sorts the array in place and returns it. The sort is stable: an
  element goes behind the elements that \<open>compare\<close> puts before it, and stays in front of
  the ones it compares equal to.
\<close>

fun insert_by :: "('c \<Rightarrow> 'c \<Rightarrow> int) \<Rightarrow> 'c \<Rightarrow> 'c list \<Rightarrow> 'c list" where
  "insert_by compare x [] = [x]"
| "insert_by compare x (y # ys) =
     (if compare x y \<le> 0 then x # y # ys else y # insert_by compare x ys)"

definition sort_by :: "('c \<Rightarrow> 'c \<Rightarrow> int) \<Rightarrow> 'c list \<Rightarrow> 'c list" where
  "sort_by compare xs = foldr (insert_by compare) xs []"

definition Array_sort :: "('c \<Rightarrow> 'c \<Rightarrow> int) \<Rightarrow> 'c store \<Rightarrow> nat \<Rightarrow> (nat \<times> 'c store) option" where
  "Array_sort compare h a =
     (case arrays h a of
        None \<Rightarrow> None
      | Some xs \<Rightarrow> Some (a, h\<lparr>arrays := (arrays h)(a \<mapsto> sort_by compare xs)\<rparr>))"

text \<open>
  \<open>localeCompare\<close> belongs to the host and depends on its locale: it is a parameter.
  \<open>connectors\<close> is the address of the array that the module imports.
\<close>

definition by_label :: "(string \<Rightarrow> string \<Rightarrow> int) \<Rightarrow> 'a connector_scheme \<Rightarrow> 'a connector_scheme \<Rightarrow> int" where
  "by_label localeCompare a b = localeCompare (label a) (label b)"

definition getSortedConnectors ::
  "(string \<Rightarrow> string \<Rightarrow> int) \<Rightarrow> 'a connector_scheme store \<Rightarrow> nat \<Rightarrow>
     (nat \<times> 'a connector_scheme store) option" where
  "getSortedConnectors localeCompare h connectors =
     (case Array_slice0 h connectors of
        None \<Rightarrow> None
      | Some (copy, h') \<Rightarrow> Array_sort (by_label localeCompare) h' copy)"

text \<open>
  A comparison that orders all strings: any two are comparable, and the order is
  transitive.
\<close>

definition consistent :: "(string \<Rightarrow> string \<Rightarrow> int) \<Rightarrow> bool" where
  "consistent localeCompare \<longleftrightarrow>
     (\<forall>a b. localeCompare a b \<le> 0 \<or> localeCompare b a \<le> 0) \<and>
     (\<forall>a b c. localeCompare a b \<le> 0 \<longrightarrow> localeCompare b c \<le> 0 \<longrightarrow> localeCompare a c \<le> 0)"

text \<open>
  Sorted by label, as the specification words it: the label of each connector is put by
  \<open>localeCompare\<close> before or level with the label of every later one. This definition is
  the specification's; it does not go through the comparison function of the source.
\<close>

definition sorted_by_label :: "(string \<Rightarrow> string \<Rightarrow> int) \<Rightarrow> 'a connector_scheme list \<Rightarrow> bool" where
  "sorted_by_label localeCompare xs =
     sorted_wrt (\<lambda>a b. localeCompare (label a) (label b) \<le> 0) xs"

text \<open>
  An example of a consistent comparison, the order of the code units, and a store that
  holds an array of two connectors at address 0.
\<close>

definition compare_code_units :: "string \<Rightarrow> string \<Rightarrow> int" where
  "compare_code_units a b = (if a = b then 0 else if a < b then - 1 else 1)"

definition example_store :: "connector store" where
  "example_store =
     \<lparr>arrays = [0 \<mapsto> [\<lparr>label = ''YouTube''\<rparr>, \<lparr>label = ''Deezer''\<rparr>]], fresh = 1\<rparr>"

subsection \<open>Printing a debug message\<close>

text \<open>
  A property of the \<open>console\<close> object is a function or something else; a name that the
  object does not have reads as \<open>undefined\<close>, and a name that the object inherits reads
  as the inherited property. The source calls the function it has read without a
  receiver (\<open>logFunc(text)\<close>, in strict mode): a function property stands for what that
  call does with the message, which is to change what has been printed or to throw.
\<close>

datatype error = Error string | TypeError string

datatype 'w property =
  PUndefined | PString string | PObject | PFunction "string \<Rightarrow> 'w \<Rightarrow> error + 'w"

fun typeof :: "'w property \<Rightarrow> string" where
  "typeof PUndefined = ''undefined''"
| "typeof (PString s) = ''string''"
| "typeof PObject = ''object''"
| "typeof (PFunction f) = ''function''"

text \<open>The parameter \<open>logType\<close> has the default \<open>'log'\<close>, taken when it is \<open>undefined\<close>.\<close>

definition logType_or_default :: "string option \<Rightarrow> string" where
  "logType_or_default logType = (case logType of None \<Rightarrow> ''log'' | Some t \<Rightarrow> t)"

definition debugLog ::
  "(string \<Rightarrow> 'w property) \<Rightarrow> string \<Rightarrow> string option \<Rightarrow> 'w \<Rightarrow> error + 'w" where
  "debugLog console text logType w =
     (let logFunc = console (logType_or_default logType)
      in if typeof logFunc \<noteq> ''function''
         then Inl (Error (''Unknown log type: '' @ logType_or_default logType))
         else (case logFunc of PFunction f \<Rightarrow> f text w | _ \<Rightarrow> Inr w))"

text \<open>
  An example of a console: \<open>log\<close> and \<open>warn\<close> append to the printed lines;
  \<open>memory\<close> is an object; \<open>valueOf\<close> and \<open>toString\<close> are the functions that every
  object inherits. Called without a receiver, \<open>valueOf\<close> throws a \<open>TypeError\<close>
  (there is no object to convert), and \<open>toString\<close> returns a string and prints nothing.
\<close>

definition example_console :: "string \<Rightarrow> string list property" where
  "example_console name =
     (if name = ''log'' \<or> name = ''warn'' then PFunction (\<lambda>text printed. Inr (printed @ [text]))
      else if name = ''memory'' then PObject
      else if name = ''valueOf'' then
        PFunction (\<lambda>text printed. Inl (TypeError ''Cannot convert undefined or null to object''))
      else if name = ''toString'' then PFunction (\<lambda>text printed. Inr printed)
      else PUndefined)"

section \<open>Properties\<close>

subsection \<open>The scrobble threshold\<close>

lemmas scrobble_consts =
  DEFAULT_SCROBBLE_TIME_def MIN_TRACK_DURATION_def MAX_SCROBBLE_TIME_def
  SCROBBLE_PERCENTAGE_def

lemma Math_min_Finite:
  "Math_min (Finite a) (Finite b) = Finite (min a b)"
  by (simp add: min_def)

lemma getSecondsToScrobble_long:
  assumes "30 \<le> d"
  shows "getSecondsToScrobble (Num (Finite d)) =
           Finite (min (of_int \<lfloor>d / 2 + 1 / 2\<rfloor>) 240)"
  using assms
  by (simp add: getSecondsToScrobble_def scrobble_consts Math_min_Finite)

text \<open>
  C1. For a duration of at least \<open>MIN_TRACK_DURATION = 30\<close> seconds the threshold is half
  the duration, rounded to the nearest integer with a tie going away from zero, and at most
  \<open>MAX_SCROBBLE_TIME = 240\<close>. A duration of 600 gives 240, one of 100 gives 50, one of 30
  gives 15.
\<close>

theorem getSecondsToScrobble_percentage:
  "(30 \<le> d \<longrightarrow>
      getSecondsToScrobble (Num (Finite d)) =
        Finite (of_int (min (round_half_away (d * 50 / 100)) 240)))
   \<and> getSecondsToScrobble (Num (Finite 600)) = Finite 240
   \<and> getSecondsToScrobble (Num (Finite 100)) = Finite 50
   \<and> getSecondsToScrobble (Num (Finite 30)) = Finite 15"
proof -
  have general: "getSecondsToScrobble (Num (Finite x)) =
      Finite (of_int (min (round_half_away (x * 50 / 100)) 240))" if "30 \<le> x" for x
    using that by (simp add: getSecondsToScrobble_long round_half_away_def min_def)
  have "getSecondsToScrobble (Num (Finite 600)) = Finite 240"
    by (simp add: getSecondsToScrobble_long)
  moreover have "getSecondsToScrobble (Num (Finite 100)) = Finite 50"
    by (simp add: getSecondsToScrobble_long)
  moreover have "getSecondsToScrobble (Num (Finite 30)) = Finite 15"
    by (simp add: getSecondsToScrobble_long)
  ultimately show ?thesis using general by blast
qed

theorem getSecondsToScrobble_percentage_witness:
  "(30::real) \<le> 31 \<and> getSecondsToScrobble (Num (Finite 31)) = Finite 16"
  using getSecondsToScrobble_percentage [of 31] by (simp add: round_half_away_def)

text \<open>
  C2. A falsy duration (zero, \<open>undefined\<close>, \<open>null\<close>, \<open>NaN\<close>) gives
  \<open>DEFAULT_SCROBBLE_TIME = 30\<close>.
\<close>

theorem getSecondsToScrobble_falsy:
  "\<not> ToBoolean duration \<Longrightarrow> getSecondsToScrobble duration = Finite 30"
  by (simp add: getSecondsToScrobble_def scrobble_consts)

theorem getSecondsToScrobble_falsy_witness:
  "\<not> ToBoolean (Num (Finite 0)) \<and> getSecondsToScrobble (Num (Finite 0)) = Finite 30
   \<and> \<not> ToBoolean Undefined \<and> getSecondsToScrobble Undefined = Finite 30
   \<and> \<not> ToBoolean Null \<and> getSecondsToScrobble Null = Finite 30
   \<and> \<not> ToBoolean (Num NaN) \<and> getSecondsToScrobble (Num NaN) = Finite 30"
  using getSecondsToScrobble_falsy [of "Num (Finite 0)"] getSecondsToScrobble_falsy [of Undefined]
    getSecondsToScrobble_falsy [of Null] getSecondsToScrobble_falsy [of "Num NaN"]
  by simp

text \<open>
  C3. A duration above zero and below \<open>MIN_TRACK_DURATION = 30\<close> gives \<open>-1\<close>.
\<close>

theorem getSecondsToScrobble_short:
  "0 < d \<Longrightarrow> d < 30 \<Longrightarrow> getSecondsToScrobble (Num (Finite d)) = Finite (- 1)"
  by (simp add: getSecondsToScrobble_def scrobble_consts)

theorem getSecondsToScrobble_short_witness:
  "(0::real) < 29.5 \<and> (29.5::real) < 30 \<and> getSecondsToScrobble (Num (Finite 29.5)) = Finite (- 1)"
  using getSecondsToScrobble_short [of "29.5"] by simp

text \<open>
  C4. Whatever the argument (a number, finite or not, \<open>undefined\<close> or \<open>null\<close>), the
  threshold is \<open>-1\<close> or an integer from 1 to 240: never zero, and negative only as \<open>-1\<close>.
\<close>

theorem getSecondsToScrobble_range:
  "\<exists>k::int. getSecondsToScrobble duration = Finite (of_int k)
     \<and> (k = - 1 \<or> (1 \<le> k \<and> k \<le> 240))"
proof (cases "\<not> ToBoolean duration")
  case True
  then have "getSecondsToScrobble duration = Finite (of_int 30)"
    by (simp add: getSecondsToScrobble_def scrobble_consts)
  then show ?thesis by (intro exI [of _ 30]) simp
next
  case truthy: False
  show ?thesis
  proof (cases "less_than (ToNumber duration) (Finite MIN_TRACK_DURATION)")
    case True
    with truthy have "getSecondsToScrobble duration = Finite (of_int (- 1))"
      by (simp add: getSecondsToScrobble_def)
    then show ?thesis by (intro exI [of _ "- 1"]) simp
  next
    case False
    with truthy consider "duration = Num PosInfinity"
      | d where "duration = Num (Finite d)" "30 \<le> d"
      by (cases duration rule: ToBoolean.cases) (auto simp: scrobble_consts)
    then show ?thesis
    proof cases
      case 1
      then have "getSecondsToScrobble duration = Finite (of_int 240)"
        by (simp add: getSecondsToScrobble_def scrobble_consts)
      then show ?thesis by (intro exI [of _ 240]) simp
    next
      case 2
      let ?k = "min \<lfloor>d / 2 + 1 / 2\<rfloor> 240"
      from 2 have "getSecondsToScrobble duration = Finite (of_int ?k)"
        by (simp add: getSecondsToScrobble_long)
      moreover from \<open>30 \<le> d\<close> have "15 \<le> \<lfloor>d / 2 + 1 / 2\<rfloor>"
        by (simp add: le_floor_iff)
      then have "1 \<le> ?k" "?k \<le> 240" by simp_all
      ultimately show ?thesis by blast
    qed
  qed
qed

subsection \<open>Hiding a string\<close>

lemma String_repeat_STR_REPLACER:
  "String_repeat STR_REPLACER n = replicate n CHR ''x''"
  by (induction n) (simp_all add: String_repeat_def STR_REPLACER_def)

text \<open>\<open>String_indexOf\<close> finds an occurrence, and the first one.\<close>

lemma String_indexOf_occurrence:
  "String_indexOf t p = Some pos \<Longrightarrow>
     pos + length p \<le> length t \<and> take (length p) (drop pos t) = p"
proof (induction t arbitrary: pos)
  case Nil
  then show ?case by (simp split: if_splits)
next
  case (Cons c cs)
  show ?case
  proof (cases "take (length p) (c # cs) = p")
    case True
    then have "length (take (length p) (c # cs)) = length p"
      by (rule arg_cong)
    then have "length p \<le> length (c # cs)"
      unfolding length_take by (metis min.cobounded1)
    with True Cons.prems show ?thesis by simp
  next
    case False
    with Cons.prems obtain pos' where "String_indexOf cs p = Some pos'" "pos = Suc pos'"
      by auto
    with Cons.IH show ?thesis by simp
  qed
qed

lemma String_indexOf_first:
  "String_indexOf t p = Some pos \<Longrightarrow> i < pos \<Longrightarrow> take (length p) (drop i t) \<noteq> p"
proof (induction t arbitrary: pos i)
  case Nil
  then show ?case by (simp split: if_splits)
next
  case (Cons c cs)
  from Cons.prems have differs: "take (length p) (c # cs) \<noteq> p"
    by (auto split: if_splits)
  with Cons.prems obtain pos' where pos': "String_indexOf cs p = Some pos'" "pos = Suc pos'"
    by auto
  show ?case
  proof (cases i)
    case 0
    with differs show ?thesis by simp
  next
    case (Suc j)
    with Cons.prems pos' have "j < pos'" by simp
    with Cons.IH pos' Suc show ?thesis by simp
  qed
qed

lemma String_indexOf_absent:
  "String_indexOf t p = None \<Longrightarrow> take (length p) (drop i t) \<noteq> p"
proof (induction t arbitrary: i)
  case Nil
  then show ?case by (auto split: if_splits)
next
  case (Cons c cs)
  then show ?case by (cases i) (auto split: if_splits)
qed

lemma GetSubstitution_plain:
  "CHR ''$'' \<notin> set replacement \<Longrightarrow>
     GetSubstitution matched preceding following replacement = replacement"
  by (induction matched preceding following replacement rule: GetSubstitution.induct) auto

text \<open>
  Where \<open>hideStringInText\<close> does mask the first five characters of the string and keep
  the rest: the string has at least five characters, and no dollar sign after the fifth.
\<close>

lemma hideStringInText_long_secret:
  assumes found: "String_indexOf t s = Some pos"
    and long: "5 \<le> length s"
    and plain: "CHR ''$'' \<notin> set (drop 5 s)"
  shows "hideStringInText (Some s) (Some t) =
           Some (take pos t @ replicate 5 CHR ''x'' @ drop 5 s @ drop (pos + length s) t)"
proof -
  from String_indexOf_occurrence [OF found] long have "5 \<le> length t" by simp
  with long have nonempty: "s \<noteq> []" "t \<noteq> []" by auto
  have "CHR ''$'' \<notin> set (replicate 5 CHR ''x'' @ drop 5 s)"
    using plain by auto
  then have "GetSubstitution s (take pos t) (drop (pos + length s) t)
      (replicate 5 CHR ''x'' @ drop 5 s) = replicate 5 CHR ''x'' @ drop 5 s"
    by (rule GetSubstitution_plain)
  with found nonempty \<open>5 \<le> length t\<close> show ?thesis
    by (simp add: hideStringInText_def String_repeat_STR_REPLACER String_substr_def
        REPLACER_LEN_def String_replace_def)
qed

lemma hideStringInText_example:
  "hideStringInText (Some ''secret123'') (Some ''token=secret123;'') = Some ''token=xxxxxt123;''"
  by (simp add: hideStringInText_def String_repeat_STR_REPLACER String_substr_def
      REPLACER_LEN_def String_replace_def)

lemma hideStringInText_not_found:
  "String_indexOf t s = None \<Longrightarrow> hideStringInText (Some s) (Some t) = Some t"
  by (simp add: hideStringInText_def String_replace_def)

lemma hideStringInText_empty_or_absent:
  "hideStringInText None text = text"
  "hideStringInText (Some []) text = text"
  "hideStringInText str None = None"
  "hideStringInText str (Some []) = Some []"
  by (simp_all add: hideStringInText_def split: option.splits)

text \<open>
  C7. \<open>hideStringInText\<close> takes the length of the mask from the text, not from the
  string to hide as \<open>hideString\<close> does: a string of three characters is replaced by five
  mask characters. The rest of the string is a replacement pattern of \<open>replace\<close>: its
  \<open>$$\<close> comes out as a single dollar sign.
\<close>

theorem hideStringInText_short_secret:
  "hideStringInText (Some ''abc'') (Some ''key=abc;'') = Some ''key=xxxxx;''
   \<and> hideString (Some ''abc'') = Some ''xxx''
   \<and> hideStringInText (Some ''abcde$$'') (Some ''k=abcde$$;'') = Some ''k=xxxxx$;''"
  by (simp add: hideStringInText_def hideString_def String_repeat_STR_REPLACER String_substr_def
      REPLACER_LEN_def String_replace_def)

text \<open>
  C10. \<open>hideString\<close> returns a string as long as its argument: \<open>min(5, str.length)\<close>
  mask characters, then the argument from that position on. An empty or absent argument
  is returned as it is.
\<close>

theorem hideString_length:
  "hideString None = None
   \<and> hideString (Some []) = Some []
   \<and> (\<exists>masked. hideString (Some str) = Some masked
        \<and> masked = replicate (min 5 (length str)) CHR ''x'' @ drop (min 5 (length str)) str
        \<and> length masked = length str)"
  by (simp add: hideString_def String_repeat_STR_REPLACER String_substr_def REPLACER_LEN_def)

subsection \<open>The promise raced against the timer\<close>

text \<open>Once the returned promise is settled, or the timer off, no event changes it.\<close>

lemma deliver_settled:
  "returned g \<noteq> Pending \<Longrightarrow> returned (deliver g ev) = returned g"
  by (cases ev) (simp_all add: on_timeout_def on_fulfilled_def on_rejected_def resolve_def
      reject_def clearTimeout_def)

lemma foldl_deliver_settled:
  "returned g \<noteq> Pending \<Longrightarrow> returned (foldl deliver g evs) = returned g"
  by (induction evs arbitrary: g) (simp_all add: deliver_settled)

lemma deliver_timer_off:
  "timer g \<noteq> Armed \<Longrightarrow> timer (deliver g ev) = timer g"
  by (cases ev) (simp_all add: on_timeout_def on_fulfilled_def on_rejected_def resolve_def
      reject_def clearTimeout_def)

lemma foldl_deliver_timer_off:
  "timer g \<noteq> Armed \<Longrightarrow> timer (foldl deliver g evs) = timer g"
  by (induction evs arbitrary: g) (simp_all add: deliver_timer_off)

text \<open>
  C5. When the wrapped promise settles first, the timer is cleared and the returned promise
  takes the same outcome, the value or the reason of the wrapped promise, whatever
  happens later.
\<close>

theorem timeoutPromise_forwards:
  "returned (timeoutPromise (Fulfils res # later)) = Fulfilled res
   \<and> timer (timeoutPromise (Fulfils res # later)) = Cleared
   \<and> returned (timeoutPromise (Rejects err # later)) = Rejected (Forwarded err)
   \<and> timer (timeoutPromise (Rejects err # later)) = Cleared"
  by (simp add: timeoutPromise_def started_def on_fulfilled_def on_rejected_def resolve_def
      reject_def clearTimeout_def foldl_deliver_settled foldl_deliver_timer_off)

text \<open>
  C6. When the timer elapses first, the returned promise is rejected with the error of the
  fixed message \<open>promise timeout\<close>, whatever happens later. The wrapped promise is left
  pending, and still settles afterwards.
\<close>

theorem timeoutPromise_times_out:
  "returned (timeoutPromise (Deadline # later)) = Rejected (NewError ''promise timeout'')
   \<and> timer (timeoutPromise (Deadline # later)) = Fired
   \<and> wrapped (timeoutPromise [Deadline]) = Pending
   \<and> wrapped (timeoutPromise [Deadline, Fulfils res]) = Fulfilled res
   \<and> wrapped (timeoutPromise [Deadline, Rejects err]) = Rejected err"
  by (simp add: timeoutPromise_def started_def on_timeout_def on_fulfilled_def on_rejected_def
      resolve_def reject_def clearTimeout_def foldl_deliver_settled foldl_deliver_timer_off)

subsection \<open>The sorted connectors\<close>

lemma mset_insert_by: "mset (insert_by compare x xs) = add_mset x (mset xs)"
  by (induction xs) simp_all

lemma set_insert_by: "set (insert_by compare x xs) = insert x (set xs)"
  by (induction xs) auto

lemma mset_sort_by: "mset (sort_by compare xs) = mset xs"
  by (induction xs) (simp_all add: sort_by_def mset_insert_by)

lemma sorted_insert_by:
  assumes total: "\<And>a b. compare a b \<le> 0 \<or> compare b a \<le> 0"
    and trans: "\<And>a b c. compare a b \<le> 0 \<Longrightarrow> compare b c \<le> 0 \<Longrightarrow> compare a c \<le> 0"
    and sorted: "sorted_wrt (\<lambda>a b. compare a b \<le> 0) xs"
  shows "sorted_wrt (\<lambda>a b. compare a b \<le> 0) (insert_by compare x xs)"
  using sorted
proof (induction xs)
  case Nil
  then show ?case by simp
next
  case (Cons y ys)
  show ?case
  proof (cases "compare x y \<le> 0")
    case True
    with Cons.prems have "\<forall>z\<in>set ys. compare x z \<le> 0"
      using trans by auto
    with True Cons.prems show ?thesis by simp
  next
    case False
    with total have "compare y x \<le> 0" by blast
    with False Cons show ?thesis by (simp add: set_insert_by)
  qed
qed

lemma sorted_sort_by:
  assumes "\<And>a b. compare a b \<le> 0 \<or> compare b a \<le> 0"
    and "\<And>a b c. compare a b \<le> 0 \<Longrightarrow> compare b c \<le> 0 \<Longrightarrow> compare a c \<le> 0"
  shows "sorted_wrt (\<lambda>a b. compare a b \<le> 0) (sort_by compare xs)"
proof (induction xs)
  case Nil
  show ?case by (simp add: sort_by_def)
next
  case (Cons x xs)
  have "sorted_wrt (\<lambda>a b. compare a b \<le> 0) (insert_by compare x (sort_by compare xs))"
    using assms Cons.IH by (rule sorted_insert_by [of compare])
  then show ?case by (simp add: sort_by_def)
qed

text \<open>Sorting leaves a sorted array as it is.\<close>

lemma sort_by_sorted:
  "sorted_wrt (\<lambda>a b. compare a b \<le> 0) xs \<Longrightarrow> sort_by compare xs = xs"
proof (induction xs)
  case Nil
  show ?case by (simp add: sort_by_def)
next
  case (Cons x xs)
  then have "sort_by compare (x # xs) = insert_by compare x xs"
    by (simp add: sort_by_def)
  also from Cons.prems have "\<dots> = x # xs"
    by (cases xs) simp_all
  finally show ?case .
qed

lemma consistent_by_label:
  assumes "consistent localeCompare"
  shows "by_label localeCompare a b \<le> 0 \<or> by_label localeCompare b a \<le> 0"
    and "by_label localeCompare a b \<le> 0 \<Longrightarrow> by_label localeCompare b c \<le> 0
           \<Longrightarrow> by_label localeCompare a c \<le> 0"
  using assms unfolding consistent_def by_label_def by blast+

lemma consistent_compare_code_units: "consistent compare_code_units"
  unfolding consistent_def compare_code_units_def by auto

text \<open>
  C8. With a consistent \<open>localeCompare\<close>, \<open>getSortedConnectors\<close> returns a new array
  that holds the connectors sorted by label, and the array of connectors is as it was.
  Sorting the returned array once more gives the same order.
\<close>

theorem getSortedConnectors_sorted_copy:
  assumes "consistent localeCompare"
    and "arrays h connectors = Some xs"
    and "connectors < fresh h"
  shows "\<exists>copy h' ys.
           getSortedConnectors localeCompare h connectors = Some (copy, h')
           \<and> copy \<noteq> connectors
           \<and> arrays h' connectors = Some xs
           \<and> arrays h' copy = Some ys
           \<and> sorted_by_label localeCompare ys
           \<and> mset ys = mset xs
           \<and> (\<exists>copy' h''. getSortedConnectors localeCompare h' copy = Some (copy', h'')
                 \<and> arrays h'' copy' = Some ys)"
proof -
  let ?cmp = "by_label localeCompare"
  let ?ys = "sort_by ?cmp xs"
  let ?h1 = "h\<lparr>arrays := (arrays h)(fresh h \<mapsto> xs), fresh := Suc (fresh h)\<rparr>"
  let ?h' = "?h1\<lparr>arrays := (arrays ?h1)(fresh h \<mapsto> ?ys)\<rparr>"
  let ?h'' = "?h'\<lparr>arrays := (arrays ?h')(Suc (fresh h) \<mapsto> ?ys), fresh := Suc (Suc (fresh h))\<rparr>
          \<lparr>arrays := ((arrays ?h')(Suc (fresh h) \<mapsto> ?ys))(Suc (fresh h) \<mapsto> sort_by ?cmp ?ys)\<rparr>"
  have sorted: "sorted_wrt (\<lambda>a b. ?cmp a b \<le> 0) ?ys"
    using consistent_by_label [OF assms(1)] by (rule sorted_sort_by [of ?cmp])
  have first: "getSortedConnectors localeCompare h connectors = Some (fresh h, ?h')"
    using assms(2) by (simp add: getSortedConnectors_def Array_slice0_def Array_sort_def)
  have again: "getSortedConnectors localeCompare ?h' (fresh h) = Some (Suc (fresh h), ?h'')"
    by (simp add: getSortedConnectors_def Array_slice0_def Array_sort_def)
  show ?thesis
  proof (intro exI conjI)
    show "getSortedConnectors localeCompare h connectors = Some (fresh h, ?h')"
      by (rule first)
    show "fresh h \<noteq> connectors"
      using assms(3) by simp
    show "arrays ?h' connectors = Some xs"
      using assms(2,3) by simp
    show "arrays ?h' (fresh h) = Some ?ys"
      by simp
    show "sorted_by_label localeCompare ?ys"
      using sorted by (simp add: sorted_by_label_def by_label_def)
    show "mset ?ys = mset xs"
      by (rule mset_sort_by)
    show "getSortedConnectors localeCompare ?h' (fresh h) = Some (Suc (fresh h), ?h'')"
      by (rule again)
    show "arrays ?h'' (Suc (fresh h)) = Some ?ys"
      using sort_by_sorted [OF sorted] by simp
  qed
qed

theorem getSortedConnectors_sorted_copy_witness:
  "consistent compare_code_units
   \<and> arrays example_store 0 = Some [\<lparr>label = ''YouTube''\<rparr>, \<lparr>label = ''Deezer''\<rparr>]
   \<and> 0 < fresh example_store
   \<and> (\<exists>copy h' ys.
         getSortedConnectors compare_code_units example_store 0 = Some (copy, h')
         \<and> copy \<noteq> 0
         \<and> arrays h' 0 = Some [\<lparr>label = ''YouTube''\<rparr>, \<lparr>label = ''Deezer''\<rparr>]
         \<and> arrays h' copy = Some ys
         \<and> sorted_by_label compare_code_units ys
         \<and> mset ys = mset [\<lparr>label = ''YouTube''\<rparr>, \<lparr>label = ''Deezer''\<rparr>]
         \<and> (\<exists>copy' h''. getSortedConnectors compare_code_units h' copy = Some (copy', h'')
               \<and> arrays h'' copy' = Some ys))"
proof -
  have 1: "consistent compare_code_units"
    by (rule consistent_compare_code_units)
  have 2: "arrays example_store 0 = Some [\<lparr>label = ''YouTube''\<rparr>, \<lparr>label = ''Deezer''\<rparr>]"
    by (simp add: example_store_def)
  have 3: "0 < fresh example_store"
    by (simp add: example_store_def)
  from getSortedConnectors_sorted_copy [OF 1 2 3] 1 2 3 show ?thesis by blast
qed

lemma getSortedConnectors_example:
  "getSortedConnectors compare_code_units example_store 0 =
     Some (1, \<lparr>arrays = [0 \<mapsto> [\<lparr>label = ''YouTube''\<rparr>, \<lparr>label = ''Deezer''\<rparr>],
                          1 \<mapsto> [\<lparr>label = ''Deezer''\<rparr>, \<lparr>label = ''YouTube''\<rparr>]],
               fresh = 2\<rparr>)"
  by (simp add: getSortedConnectors_def Array_slice0_def Array_sort_def example_store_def
      sort_by_def by_label_def compare_code_units_def)

subsection \<open>The debug message\<close>

text \<open>
  C9, as the claim states it, fails: \<open>debugLog\<close> also raises for a name that denotes a
  function, when the call of that function throws, as \<open>valueOf\<close> does; and a function
  that logs nothing, as \<open>toString\<close>, is called without an error.
\<close>

theorem debugLog_raises_on_function:
  "typeof (example_console (logType_or_default (Some ''valueOf''))) = ''function''
   \<and> debugLog example_console ''hello'' (Some ''valueOf'') [] =
         Inl (TypeError ''Cannot convert undefined or null to object'')
   \<and> typeof (example_console (logType_or_default (Some ''toString''))) = ''function''
   \<and> debugLog example_console ''hello'' (Some ''toString'') [] = Inr []"
  by (simp add: debugLog_def logType_or_default_def example_console_def)

text \<open>
  C9, amended. When the property of the console that the log type names is not a
  function, \<open>debugLog\<close> throws the error \<open>Unknown log type\<close> with the name. When it is a
  function, \<open>debugLog\<close> calls it with the message and ends as the call does. So
  \<open>debugLog\<close> raises exactly when the property is not a function or the call of the
  function throws.
\<close>

theorem debugLog_outcome:
  "(typeof (console (logType_or_default logType)) \<noteq> ''function'' \<longrightarrow>
      debugLog console text logType w =
        Inl (Error (''Unknown log type: '' @ logType_or_default logType)))
   \<and> (typeof (console (logType_or_default logType)) = ''function'' \<longrightarrow>
        (\<exists>logFunc. console (logType_or_default logType) = PFunction logFunc
           \<and> debugLog console text logType w = logFunc text w))
   \<and> (isl (debugLog console text logType w) \<longleftrightarrow>
        typeof (console (logType_or_default logType)) \<noteq> ''function''
        \<or> (\<exists>logFunc. console (logType_or_default logType) = PFunction logFunc
              \<and> isl (logFunc text w)))"
  by (cases "console (logType_or_default logType)") (simp_all add: debugLog_def)

theorem debugLog_outcome_witness:
  "typeof (example_console (logType_or_default (Some ''memory''))) \<noteq> ''function''
   \<and> debugLog example_console ''hello'' (Some ''memory'') [] =
         Inl (Error ''Unknown log type: memory'')
   \<and> typeof (example_console (logType_or_default (Some ''warn''))) = ''function''
   \<and> debugLog example_console ''hello'' (Some ''warn'') [] = Inr [''hello'']
   \<and> typeof (example_console (logType_or_default (Some ''valueOf''))) = ''function''
   \<and> isl (debugLog example_console ''hello'' (Some ''valueOf'') [])"
  using debugLog_outcome [of example_console "Some ''memory''" "''hello''" "[]"]
    debugLog_outcome [of example_console "Some ''warn''" "''hello''" "[]"]
    debugLog_outcome [of example_console "Some ''valueOf''" "''hello''" "[]"]
  by (simp add: logType_or_default_def example_console_def)

lemma debugLog_examples:
  "debugLog example_console ''hello'' None [] = Inr [''hello'']"
  "debugLog example_console ''hello'' (Some ''memory'') [] = Inl (Error ''Unknown log type: memory'')"
  "debugLog example_console ''hello'' (Some ''verbose'') [] = Inl (Error ''Unknown log type: verbose'')"
  by (simp_all add: debugLog_def logType_or_default_def example_console_def)

end
